theory Spec2Isabelle
  imports Complex_Main
begin

section \<open>The node of libenkf: data model\<close>

text \<open>
  Shallow embedding of \<^verbatim>\<open>devel/libenkf/src/enkf_node.c\<close>.

  A function pointer of the struct is a \<open>handler\<close>: \<open>None\<close> is the NULL pointer and
  \<open>Some f\<close> points to the C function named \<open>f\<close>. The functions of the implementation
  types (\<^verbatim>\<open>gen_kw_fread__\<close>, \<^verbatim>\<open>field_alloc__\<close>, ...) live in other files; calling one is
  recorded as a \<open>call\<close> with its arguments, and every operation returns the calls it made,
  in order. What such a function returns is a parameter of the operation that calls it.
  \<^verbatim>\<open>abort()\<close> and \<^verbatim>\<open>util_abort()\<close> end the process: they are the \<open>Inl\<close> results.
\<close>

datatype state_enum = undefined_state | forecast | analyzed

datatype enkf_impl_type =
    GEN_KW | MULTZ | RELPERM | MULTFLT | WELL | SUMMARY | HAVANA_FAULT
  | FIELD | EQUIL | STATIC | GEN_DATA
  | INVALID_IMPL  \<comment> \<open>any value the switch of \<^verbatim>\<open>enkf_node_alloc_empty\<close> has no case for\<close>

type_synonym handler = "string option"

type_synonym void_ptr = "nat option"

record enkf_config_node =
  key :: string
  impl_type :: enkf_impl_type
  infile :: "string option"
  outfile :: "string option"

datatype arg =
    Data void_ptr            \<comment> \<open>\<^verbatim>\<open>node->data\<close>\<close>
  | Data_pointers "void_ptr list"
  | Config_ref
  | Str string
  | Full_path string string  \<comment> \<open>the result of \<^verbatim>\<open>util_alloc_full_path(path , file)\<close>\<close>
  | Num int
  | Dbl real
  | Ptr nat                  \<comment> \<open>a stream, fortio, ecl_sum, ecl_block, ecl_kw or serial vector\<close>
  | Serial_state

datatype call = Call string "arg list"

datatype error =
    Not_registered string string string
      \<comment> \<open>\<^verbatim>\<open>FUNC_ASSERT\<close>: \<^verbatim>\<open>__func__\<close>, the handler expression, the node key; then \<^verbatim>\<open>abort()\<close>\<close>
  | Util_abort string string   \<comment> \<open>\<^verbatim>\<open>util_abort\<close>: \<^verbatim>\<open>__func__\<close> and the message\<close>
  | Abort string               \<comment> \<open>a \<^verbatim>\<open>printf\<close> and \<^verbatim>\<open>abort()\<close>\<close>
  | Null_call string           \<comment> \<open>a call through a NULL function pointer\<close>
  | Out_of_bounds string       \<comment> \<open>a read past the end of an array\<close>

record enkf_node =
  alloc :: handler
  ecl_write :: handler
  ecl_load :: handler
  fread_f :: handler
  fwrite_f :: handler
  realloc_data :: handler
  free_data :: handler
  serialize :: handler
  deserialize :: handler
  initialize :: handler
  freef :: handler
  clear :: handler
  copyc :: handler
  scale :: handler
  iadd :: handler
  imul :: handler
  isqrt :: handler
  iaddsqr :: handler
  fprintf_results :: handler
  iget :: handler
  get_index :: handler
  node_key :: string
  data :: void_ptr
  config :: enkf_config_node
  memory_allocated :: bool
  modified :: bool
  report_step :: int
  state :: state_enum

text \<open>
  The fields \<open>memory_allocated\<close>, \<open>modified\<close>, \<open>report_step\<close> and \<open>state\<close> are
  \<^verbatim>\<open>__memory_allocated\<close>, \<^verbatim>\<open>__modified\<close>, \<^verbatim>\<open>__report_step\<close> and \<^verbatim>\<open>__state\<close>. The C
  \<^verbatim>\<open>int\<close> \<open>report_step\<close> is only assigned and compared, never computed with, so it is an
  \<open>int\<close> here. The \<^verbatim>\<open>serial_state\<close> object is opaque to this file and appears only as an
  argument of the calls that receive it.
\<close>

type_synonym 'a result = "error + 'a"

section \<open>Memory\<close>

definition enkf_node_ensure_memory :: "enkf_node \<Rightarrow> (enkf_node \<times> call list) result" where
  "enkf_node_ensure_memory enkf_node =
     (case realloc_data enkf_node of
        None \<Rightarrow> Inl (Not_registered ''enkf_node_ensure_memory'' ''enkf_node->realloc_data''
                       (node_key enkf_node))
      | Some f \<Rightarrow>
          if \<not> memory_allocated enkf_node
          then Inr (enkf_node\<lparr>memory_allocated := True\<rparr>, [Call f [Data (data enkf_node)]])
          else Inr (enkf_node, []))"

text \<open>\<open>new_data\<close> is the pointer the \<^verbatim>\<open>alloc\<close> function of the implementation returns.\<close>

definition enkf_node_alloc_domain_object ::
    "enkf_node \<Rightarrow> void_ptr \<Rightarrow> (enkf_node \<times> call list) result" where
  "enkf_node_alloc_domain_object node new_data =
     (case (if data node \<noteq> None
            then (case freef node of
                    None \<Rightarrow> Inl (Null_call ''node->freef'')
                  | Some f \<Rightarrow> Inr [Call f [Data (data node)]])
            else Inr []) of
        Inl e \<Rightarrow> Inl e
      | Inr freed \<Rightarrow>
          (case alloc node of
             None \<Rightarrow> Inl (Null_call ''node->alloc'')
           | Some a \<Rightarrow>
               Inr (node\<lparr>data := new_data, memory_allocated := True\<rparr>,
                    freed @ [Call a [Config_ref]])))"

definition enkf_node_assert_memory :: "enkf_node \<Rightarrow> string \<Rightarrow> unit result" where
  "enkf_node_assert_memory enkf_node caller =
     (if \<not> memory_allocated enkf_node
      then Inl (Util_abort ''enkf_node_assert_memory'' ''tried to call without allocated memory'')
      else Inr ())"

section \<open>Construction\<close>

text \<open>
  \<open>blk\<close> is the block \<^verbatim>\<open>util_malloc\<close> returns, whose contents are not determined: the
  fields \<^verbatim>\<open>enkf_node_alloc_empty\<close> does not assign (\<open>clear\<close>, \<open>scale\<close>, \<open>iadd\<close>, \<open>imul\<close>,
  \<open>isqrt\<close>, \<open>iaddsqr\<close>) keep what the block held.
\<close>

definition enkf_node_alloc_empty :: "enkf_node \<Rightarrow> enkf_config_node \<Rightarrow> enkf_node result" where
  "enkf_node_alloc_empty blk cfg =
     (let node = blk\<lparr>config := cfg, node_key := key cfg, data := None,
                     memory_allocated := False, modified := True, report_step := - 1,
                     state := undefined_state,
                     realloc_data := None, alloc := None, ecl_write := None, ecl_load := None,
                     fread_f := None, fwrite_f := None, copyc := None, initialize := None,
                     serialize := None, deserialize := None, freef := None, free_data := None,
                     fprintf_results := None, iget := None, get_index := None\<rparr>
      in case impl_type cfg of
        GEN_KW \<Rightarrow> Inr (node\<lparr>
          realloc_data := Some ''gen_kw_realloc_data__'', alloc := Some ''gen_kw_alloc__'',
          ecl_write := Some ''gen_kw_ecl_write__'', fread_f := Some ''gen_kw_fread__'',
          fwrite_f := Some ''gen_kw_fwrite__'', copyc := Some ''gen_kw_copyc__'',
          initialize := Some ''gen_kw_initialize__'', serialize := Some ''gen_kw_serialize__'',
          deserialize := Some ''gen_kw_deserialize__'', freef := Some ''gen_kw_free__'',
          free_data := Some ''gen_kw_free_data__'',
          fprintf_results := Some ''gen_kw_ensemble_fprintf_results__''\<rparr>)
      | MULTZ \<Rightarrow> Inr (node\<lparr>
          realloc_data := Some ''multz_realloc_data__'', alloc := Some ''multz_alloc__'',
          ecl_write := Some ''multz_ecl_write__'', fread_f := Some ''multz_fread__'',
          fwrite_f := Some ''multz_fwrite__'', copyc := Some ''multz_copyc__'',
          initialize := Some ''multz_initialize__'', serialize := Some ''multz_serialize__'',
          deserialize := Some ''multz_deserialize__'', freef := Some ''multz_free__'',
          free_data := Some ''multz_free_data__''\<rparr>)
      | RELPERM \<Rightarrow> Inr (node\<lparr>
          alloc := Some ''relperm_alloc__'', ecl_write := Some ''relperm_ecl_write__'',
          fread_f := Some ''relperm_fread__'', fwrite_f := Some ''relperm_fwrite__'',
          copyc := Some ''relperm_copyc__'', initialize := Some ''relperm_initialize__'',
          serialize := Some ''relperm_serialize__'',
          deserialize := Some ''relperm_deserialize__'', freef := Some ''relperm_free__'',
          free_data := Some ''relperm_free_data__''\<rparr>)
      | MULTFLT \<Rightarrow> Inr (node\<lparr>
          realloc_data := Some ''multflt_realloc_data__'', alloc := Some ''multflt_alloc__'',
          ecl_write := Some ''multflt_ecl_write__'', fread_f := Some ''multflt_fread__'',
          fwrite_f := Some ''multflt_fwrite__'', copyc := Some ''multflt_copyc__'',
          initialize := Some ''multflt_initialize__'',
          serialize := Some ''multflt_serialize__'',
          deserialize := Some ''multflt_deserialize__'', freef := Some ''multflt_free__'',
          free_data := Some ''multflt_free_data__'',
          fprintf_results := Some ''multflt_ensemble_fprintf_results__''\<rparr>)
      | WELL \<Rightarrow> Inr (node\<lparr>
          ecl_load := Some ''well_ecl_load__'', realloc_data := Some ''well_realloc_data__'',
          alloc := Some ''well_alloc__'', fread_f := Some ''well_fread__'',
          fwrite_f := Some ''well_fwrite__'', copyc := Some ''well_copyc__'',
          serialize := Some ''well_serialize__'', deserialize := Some ''well_deserialize__'',
          freef := Some ''well_free__'', free_data := Some ''well_free_data__'',
          fprintf_results := Some ''well_ensemble_fprintf_results__''\<rparr>)
      | SUMMARY \<Rightarrow> Inr (node\<lparr>
          ecl_load := Some ''summary_ecl_load__'',
          realloc_data := Some ''summary_realloc_data__'', alloc := Some ''summary_alloc__'',
          fread_f := Some ''summary_fread__'', fwrite_f := Some ''summary_fwrite__'',
          copyc := Some ''summary_copyc__'', serialize := Some ''summary_serialize__'',
          deserialize := Some ''summary_deserialize__'', freef := Some ''summary_free__'',
          free_data := Some ''summary_free_data__''\<rparr>)
      | HAVANA_FAULT \<Rightarrow> Inr (node\<lparr>
          realloc_data := Some ''havana_fault_realloc_data__'',
          alloc := Some ''havana_fault_alloc__'',
          ecl_write := Some ''havana_fault_ecl_write__'',
          fread_f := Some ''havana_fault_fread__'', fwrite_f := Some ''havana_fault_fwrite__'',
          copyc := Some ''havana_fault_copyc__'',
          serialize := Some ''havana_fault_serialize__'',
          deserialize := Some ''havana_fault_deserialize__'',
          freef := Some ''havana_fault_free__'', free_data := Some ''havana_fault_free_data__'',
          initialize := Some ''havana_fault_initialize__'',
          fprintf_results := Some ''havana_fault_ensemble_fprintf_results__''\<rparr>)
      | FIELD \<Rightarrow> Inr (node\<lparr>
          realloc_data := Some ''field_realloc_data__'', alloc := Some ''field_alloc__'',
          ecl_write := Some ''field_ecl_write__'', ecl_load := Some ''field_ecl_load__'',
          fread_f := Some ''field_fread__'', fwrite_f := Some ''field_fwrite__'',
          copyc := Some ''field_copyc__'', initialize := Some ''field_initialize__'',
          serialize := Some ''field_serialize__'', deserialize := Some ''field_deserialize__'',
          freef := Some ''field_free__'', free_data := Some ''field_free_data__'',
          iget := Some ''field_iget__''\<rparr>)
      | EQUIL \<Rightarrow> Inr (node\<lparr>
          alloc := Some ''equil_alloc__'', ecl_write := Some ''equil_ecl_write__'',
          fread_f := Some ''equil_fread__'', fwrite_f := Some ''equil_fwrite__'',
          copyc := Some ''equil_copyc__'', initialize := Some ''equil_initialize__'',
          serialize := Some ''equil_serialize__'', deserialize := Some ''equil_deserialize__'',
          freef := Some ''equil_free__'', free_data := Some ''equil_free_data__''\<rparr>)
      | STATIC \<Rightarrow> Inr (node\<lparr>
          realloc_data := Some ''ecl_static_kw_realloc_data__'',
          ecl_write := Some ''ecl_static_kw_ecl_write__'',
          alloc := Some ''ecl_static_kw_alloc__'', fread_f := Some ''ecl_static_kw_fread__'',
          fwrite_f := Some ''ecl_static_kw_fwrite__'', copyc := Some ''ecl_static_kw_copyc__'',
          freef := Some ''ecl_static_kw_free__'',
          free_data := Some ''ecl_static_kw_free_data__''\<rparr>)
      | GEN_DATA \<Rightarrow> Inr (node\<lparr>
          realloc_data := Some ''gen_param_realloc_data__'', alloc := Some ''gen_param_alloc__'',
          fread_f := Some ''gen_param_fread__'', fwrite_f := Some ''gen_param_fwrite__'',
          initialize := Some ''gen_param_initialize__'', copyc := Some ''gen_param_copyc__'',
          freef := Some ''gen_param_free__'', free_data := Some ''gen_param_free_data__'',
          ecl_write := Some ''gen_param_ecl_write__'',
          serialize := Some ''gen_param_serialize__'',
          deserialize := Some ''gen_param_deserialize__''\<rparr>)
      | INVALID_IMPL \<Rightarrow>
          Inl (Util_abort ''enkf_node_alloc_empty'' ''implementation type unknown''))"

text \<open>\<open>enkf_node_alloc_static\<close> below is the static function \<^verbatim>\<open>enkf_node_alloc__\<close>.\<close>

definition enkf_node_alloc_static ::
    "enkf_node \<Rightarrow> void_ptr \<Rightarrow> enkf_config_node \<Rightarrow> (enkf_node \<times> call list) result" where
  "enkf_node_alloc_static blk new_data cfg =
     (case enkf_node_alloc_empty blk cfg of
        Inl e \<Rightarrow> Inl e
      | Inr node \<Rightarrow> enkf_node_alloc_domain_object node new_data)"

text \<open>The argument is a pointer to a config node; \<open>None\<close> is NULL.\<close>

definition enkf_node_alloc ::
    "enkf_node \<Rightarrow> void_ptr \<Rightarrow> enkf_config_node option \<Rightarrow> (enkf_node \<times> call list) result" where
  "enkf_node_alloc blk new_data cfg_ptr =
     (case cfg_ptr of
        None \<Rightarrow> Inl (Util_abort ''enkf_node_alloc''
                 ''must use enkf_node_alloc_static() to allocate static nodes'')
      | Some cfg \<Rightarrow> enkf_node_alloc_static blk new_data cfg)"

definition enkf_node_copyc :: "enkf_node \<Rightarrow> enkf_node \<Rightarrow> void_ptr \<Rightarrow> enkf_node result" where
  "enkf_node_copyc src blk new_data =
     (case copyc src of
        None \<Rightarrow> Inl (Abort ''Har ikke copyc funksjon'')
      | Some _ \<Rightarrow>
          (case enkf_node_alloc blk new_data (Some (config src)) of
             Inl e \<Rightarrow> Inl e
           | Inr _ \<Rightarrow> Inl (Abort ''enkf_node_copyc: not properly implemented ... '')))"

section \<open>Operations\<close>

definition enkf_node_ecl_write :: "enkf_node \<Rightarrow> string \<Rightarrow> nat \<Rightarrow> call list result" where
  "enkf_node_ecl_write enkf_node path restart_fortio =
     (case ecl_write enkf_node of
        Some f \<Rightarrow>
          (case outfile (config enkf_node) of
             Some node_eclfile \<Rightarrow>
               Inr [Call f [Data (data enkf_node), Full_path path node_eclfile,
                            Ptr restart_fortio]]
           | None \<Rightarrow> Inr [Call f [Data (data enkf_node), Str path, Ptr restart_fortio]])
      | None \<Rightarrow> Inr [])"

definition enkf_node_ecl_load ::
    "enkf_node \<Rightarrow> string \<Rightarrow> nat \<Rightarrow> nat \<Rightarrow> int \<Rightarrow> (enkf_node \<times> call list) result" where
  "enkf_node_ecl_load enkf_node run_path ecl_sum restart_block rs =
     (case ecl_load enkf_node of
        None \<Rightarrow> Inl (Not_registered ''enkf_node_ecl_load'' ''enkf_node->ecl_load''
                       (node_key enkf_node))
      | Some f \<Rightarrow>
          (case enkf_node_ensure_memory enkf_node of
             Inl e \<Rightarrow> Inl e
           | Inr (n1, ensured) \<Rightarrow>
               Inr (n1\<lparr>report_step := rs, state := forecast, modified := False\<rparr>,
                    ensured @
                    [Call f [Data (data n1),
                             (case infile (config n1) of
                                Some input_file \<Rightarrow> Full_path run_path input_file
                              | None \<Rightarrow> Str run_path),
                             Ptr ecl_sum, Ptr restart_block, Num rs]])))"

definition enkf_node_ecl_load_static ::
    "enkf_node \<Rightarrow> nat \<Rightarrow> int \<Rightarrow> (enkf_node \<times> call list) result" where
  "enkf_node_ecl_load_static enkf_node ecl_kw rs =
     Inr (enkf_node\<lparr>memory_allocated := True, report_step := rs, state := forecast,
                     modified := False\<rparr>,
          [Call ''ecl_static_kw_init'' [Data (data enkf_node), Ptr ecl_kw]])"

text \<open>\<open>data_written\<close> is what the \<^verbatim>\<open>fwrite_f\<close> function returns.\<close>

definition enkf_node_fwrite ::
    "enkf_node \<Rightarrow> nat \<Rightarrow> int \<Rightarrow> state_enum \<Rightarrow> bool \<Rightarrow> (bool \<times> enkf_node \<times> call list) result"
  where
  "enkf_node_fwrite enkf_node stream rs st data_written =
     (if \<not> memory_allocated enkf_node
      then Inl (Util_abort ''enkf_node_fwrite''
                  ''fatal internal error: tried to save node - memory is not allocated'')
      else
        (case fwrite_f enkf_node of
           None \<Rightarrow> Inl (Not_registered ''enkf_node_fwrite'' ''enkf_node->fwrite_f''
                          (node_key enkf_node))
         | Some f \<Rightarrow>
             Inr (data_written,
                  enkf_node\<lparr>report_step := rs, state := st, modified := False\<rparr>,
                  [Call f [Data (data enkf_node), Ptr stream]])))"

definition enkf_node_fread ::
    "enkf_node \<Rightarrow> nat \<Rightarrow> int \<Rightarrow> state_enum \<Rightarrow> (enkf_node \<times> call list) result" where
  "enkf_node_fread enkf_node stream rs st =
     (if rs = report_step enkf_node \<and> st = state enkf_node \<and> \<not> modified enkf_node
      then Inr (enkf_node, [])
      else
        (case fread_f enkf_node of
           None \<Rightarrow> Inl (Not_registered ''enkf_node_fread'' ''enkf_node->fread_f''
                          (node_key enkf_node))
         | Some f \<Rightarrow>
             (case enkf_node_ensure_memory enkf_node of
                Inl e \<Rightarrow> Inl e
              | Inr (n1, ensured) \<Rightarrow>
                  Inr (n1\<lparr>modified := False, report_step := rs, state := st\<rparr>,
                       ensured @ [Call f [Data (data n1), Ptr stream]]))))"

text \<open>
  The ensemble is an array of node pointers with its length \<open>ens_size\<close> passed beside it.
  The function first allocates the array of data pointers with
  \<^verbatim>\<open>util_malloc(ens_size * sizeof * data_pointers , __func__)\<close>. \<^verbatim>\<open>util_malloc\<close> is in
  libutil and aborts when the allocation fails; a negative \<open>ens_size\<close> becomes, as a
  \<^verbatim>\<open>size_t\<close>, a size no allocation meets. Then the function reads \<^verbatim>\<open>ensemble[0]\<close> for
  the file name and \<^verbatim>\<open>ensemble[iens]\<close> for \<^verbatim>\<open>iens < ens_size\<close>, and calls
  \<^verbatim>\<open>ensemble[0]->fprintf_results\<close> with no test of the pointer.
\<close>

definition enkf_node_ensemble_fprintf_results ::
    "enkf_node list \<Rightarrow> int \<Rightarrow> int \<Rightarrow> string \<Rightarrow> call list result" where
  "enkf_node_ensemble_fprintf_results ensemble ens_size rs path =
     (if ens_size < 0
      then Inl (Util_abort ''util_malloc'' ''enkf_node_ensemble_fprintf_results'')
      else
        (case ensemble of
           [] \<Rightarrow> Inl (Out_of_bounds ''ensemble[0]'')
         | first # _ \<Rightarrow>
             if int (length ensemble) < ens_size then Inl (Out_of_bounds ''ensemble[iens]'')
             else
               (case fprintf_results first of
                  None \<Rightarrow> Inl (Null_call ''ensemble[0]->fprintf_results'')
                | Some f \<Rightarrow>
                    Inr [Call f [Data_pointers (map data (take (nat ens_size) ensemble)),
                                 Num ens_size, Full_path path (node_key first)]])))"

definition enkf_node_ens_clear :: "enkf_node \<Rightarrow> call list result" where
  "enkf_node_ens_clear enkf_node =
     (case clear enkf_node of
        None \<Rightarrow> Inl (Not_registered ''enkf_node_ens_clear'' ''enkf_node->clear''
                       (node_key enkf_node))
      | Some f \<Rightarrow> Inr [Call f [Data (data enkf_node)]])"

text \<open>
  \<open>elements_added\<close> is what the \<^verbatim>\<open>serialize\<close> function returns and \<open>completed\<close> what
  \<^verbatim>\<open>serial_state_complete\<close> returns after it.
\<close>

definition enkf_node_serialize ::
    "enkf_node \<Rightarrow> nat \<Rightarrow> nat \<Rightarrow> int \<Rightarrow> bool \<Rightarrow> (int \<times> bool \<times> call list) result" where
  "enkf_node_serialize enkf_node current_serial_offset serial_vector elements_added completed =
     (case serialize enkf_node of
        None \<Rightarrow> Inl (Not_registered ''enkf_node_serialize'' ''enkf_node->serialize''
                       (node_key enkf_node))
      | Some f \<Rightarrow>
          (case enkf_node_assert_memory enkf_node ''enkf_node_serialize'' of
             Inl e \<Rightarrow> Inl e
           | Inr _ \<Rightarrow>
               Inr (elements_added, completed,
                    [Call f [Data (data enkf_node), Serial_state,
                             Num (int current_serial_offset), Ptr serial_vector],
                     Call ''serial_state_complete'' [Serial_state]])))"

text \<open>
  The assertion of \<^verbatim>\<open>enkf_node_deserialize\<close> tests \<^verbatim>\<open>enkf_node->serialize\<close>; the function
  called is \<^verbatim>\<open>enkf_node->deserialize\<close>.
\<close>

definition enkf_node_deserialize :: "enkf_node \<Rightarrow> nat \<Rightarrow> (enkf_node \<times> call list) result" where
  "enkf_node_deserialize enkf_node serial_vector =
     (case serialize enkf_node of
        None \<Rightarrow> Inl (Not_registered ''enkf_node_deserialize'' ''enkf_node->serialize''
                       (node_key enkf_node))
      | Some _ \<Rightarrow>
          (case deserialize enkf_node of
             None \<Rightarrow> Inl (Null_call ''enkf_node->deserialize'')
           | Some f \<Rightarrow>
               Inr (enkf_node\<lparr>modified := True\<rparr>,
                    [Call f [Data (data enkf_node), Serial_state, Ptr serial_vector]])))"

definition enkf_node_sqrt :: "enkf_node \<Rightarrow> call list result" where
  "enkf_node_sqrt enkf_node =
     (case isqrt enkf_node of
        None \<Rightarrow> Inl (Not_registered ''enkf_node_sqrt'' ''enkf_node->isqrt'' (node_key enkf_node))
      | Some f \<Rightarrow> Inr [Call f [Data (data enkf_node)]])"

definition enkf_node_scale :: "enkf_node \<Rightarrow> real \<Rightarrow> call list result" where
  "enkf_node_scale enkf_node scale_factor =
     (case scale enkf_node of
        None \<Rightarrow> Inl (Not_registered ''enkf_node_scale'' ''enkf_node->scale'' (node_key enkf_node))
      | Some f \<Rightarrow> Inr [Call f [Data (data enkf_node), Dbl scale_factor]])"

definition enkf_node_iadd :: "enkf_node \<Rightarrow> enkf_node \<Rightarrow> call list result" where
  "enkf_node_iadd enkf_node delta_node =
     (case iadd enkf_node of
        None \<Rightarrow> Inl (Not_registered ''enkf_node_iadd'' ''enkf_node->iadd'' (node_key enkf_node))
      | Some f \<Rightarrow> Inr [Call f [Data (data enkf_node), Data (data delta_node)]])"

definition enkf_node_iaddsqr :: "enkf_node \<Rightarrow> enkf_node \<Rightarrow> call list result" where
  "enkf_node_iaddsqr enkf_node delta_node =
     (case iaddsqr enkf_node of
        None \<Rightarrow> Inl (Not_registered ''enkf_node_iaddsqr'' ''enkf_node->iaddsqr''
                       (node_key enkf_node))
      | Some f \<Rightarrow> Inr [Call f [Data (data enkf_node), Data (data delta_node)]])"

definition enkf_node_imul :: "enkf_node \<Rightarrow> enkf_node \<Rightarrow> call list result" where
  "enkf_node_imul enkf_node delta_node =
     (case imul enkf_node of
        None \<Rightarrow> Inl (Not_registered ''enkf_node_imul'' ''enkf_node->imul'' (node_key enkf_node))
      | Some f \<Rightarrow> Inr [Call f [Data (data enkf_node), Data (data delta_node)]])"

definition enkf_node_initialize :: "enkf_node \<Rightarrow> int \<Rightarrow> (enkf_node \<times> call list) result" where
  "enkf_node_initialize enkf_node iens =
     (case initialize enkf_node of
        Some f \<Rightarrow>
          (case enkf_node_ensure_memory enkf_node of
             Inl e \<Rightarrow> Inl e
           | Inr (n1, ensured) \<Rightarrow>
               Inr (n1\<lparr>report_step := 0, state := analyzed, modified := True\<rparr>,
                    ensured @ [Call f [Data (data n1), Num iens]]))
      | None \<Rightarrow> Inr (enkf_node, []))"

definition enkf_node_free_data :: "enkf_node \<Rightarrow> (enkf_node \<times> call list) result" where
  "enkf_node_free_data enkf_node =
     (case free_data enkf_node of
        None \<Rightarrow> Inl (Not_registered ''enkf_node_free_data'' ''enkf_node->free_data''
                       (node_key enkf_node))
      | Some f \<Rightarrow>
          Inr (enkf_node\<lparr>memory_allocated := False, report_step := - 1,
                          state := undefined_state, modified := True\<rparr>,
               [Call f [Data (data enkf_node)]]))"

definition enkf_node_clear :: "enkf_node \<Rightarrow> call list result" where
  "enkf_node_clear enkf_node =
     (case clear enkf_node of
        None \<Rightarrow> Inl (Not_registered ''enkf_node_clear'' ''enkf_node->clear'' (node_key enkf_node))
      | Some f \<Rightarrow> Inr [Call f [Data (data enkf_node)]])"

section \<open>Sequences of calls on one node\<close>

text \<open>
  A caller holds a node and calls the public functions on it one after the other. A
  \<open>node_op\<close> is one such call with its arguments (and, where the handler returns a value,
  that value); \<open>apply_op\<close> dispatches it, and \<open>run\<close> applies a sequence, stopping at the
  first abort as the process would. The functions taking a \<^verbatim>\<open>const\<close> node leave it as it is.
\<close>

datatype node_op =
    Alloc_domain_object void_ptr
  | Ecl_write string nat
  | Ecl_load string nat nat int
  | Ecl_load_static nat int
  | Fwrite nat int state_enum bool
  | Fread nat int state_enum
  | Ens_clear
  | Serialize nat nat int bool
  | Deserialize nat
  | Sqrt
  | Scale real
  | Iadd enkf_node
  | Iaddsqr enkf_node
  | Imul enkf_node
  | Initialize int
  | Free_data
  | Clear

definition keep_node :: "enkf_node \<Rightarrow> call list result \<Rightarrow> (enkf_node \<times> call list) result" where
  "keep_node n r = (case r of Inl e \<Rightarrow> Inl e | Inr cs \<Rightarrow> Inr (n, cs))"

fun apply_op :: "enkf_node \<Rightarrow> node_op \<Rightarrow> (enkf_node \<times> call list) result" where
  "apply_op n (Alloc_domain_object new_data) = enkf_node_alloc_domain_object n new_data"
| "apply_op n (Ecl_write path restart_fortio) =
     keep_node n (enkf_node_ecl_write n path restart_fortio)"
| "apply_op n (Ecl_load run_path ecl_sum restart_block rs) =
     enkf_node_ecl_load n run_path ecl_sum restart_block rs"
| "apply_op n (Ecl_load_static ecl_kw rs) = enkf_node_ecl_load_static n ecl_kw rs"
| "apply_op n (Fwrite stream rs st data_written) =
     (case enkf_node_fwrite n stream rs st data_written of
        Inl e \<Rightarrow> Inl e
      | Inr (_, n1, cs) \<Rightarrow> Inr (n1, cs))"
| "apply_op n (Fread stream rs st) = enkf_node_fread n stream rs st"
| "apply_op n Ens_clear = keep_node n (enkf_node_ens_clear n)"
| "apply_op n (Serialize offset serial_vector elements_added completed) =
     (case enkf_node_serialize n offset serial_vector elements_added completed of
        Inl e \<Rightarrow> Inl e
      | Inr (_, _, cs) \<Rightarrow> Inr (n, cs))"
| "apply_op n (Deserialize serial_vector) = enkf_node_deserialize n serial_vector"
| "apply_op n Sqrt = keep_node n (enkf_node_sqrt n)"
| "apply_op n (Scale scale_factor) = keep_node n (enkf_node_scale n scale_factor)"
| "apply_op n (Iadd delta_node) = keep_node n (enkf_node_iadd n delta_node)"
| "apply_op n (Iaddsqr delta_node) = keep_node n (enkf_node_iaddsqr n delta_node)"
| "apply_op n (Imul delta_node) = keep_node n (enkf_node_imul n delta_node)"
| "apply_op n (Initialize iens) = enkf_node_initialize n iens"
| "apply_op n Free_data = enkf_node_free_data n"
| "apply_op n Clear = keep_node n (enkf_node_clear n)"

fun run :: "enkf_node \<Rightarrow> node_op list \<Rightarrow> (enkf_node \<times> call list) result" where
  "run n [] = Inr (n, [])"
| "run n (x # xs) =
     (case apply_op n x of
        Inl e \<Rightarrow> Inl e
      | Inr (n1, cs1) \<Rightarrow>
          (case run n1 xs of
             Inl e \<Rightarrow> Inl e
           | Inr (n2, cs2) \<Rightarrow> Inr (n2, cs1 @ cs2)))"

text \<open>
  The arguments a caller keeps consistent when it names a snapshot: the state is
  undefined exactly when the report step is \<open>-1\<close>. Loading ECLIPSE results always sets
  the state \<open>forecast\<close>.
\<close>

fun consistent_args :: "node_op \<Rightarrow> bool" where
  "consistent_args (Fread stream rs st) = ((st = undefined_state) = (rs = - 1))"
| "consistent_args (Fwrite stream rs st data_written) = ((st = undefined_state) = (rs = - 1))"
| "consistent_args (Ecl_load run_path ecl_sum restart_block rs) = (rs \<noteq> - 1)"
| "consistent_args (Ecl_load_static ecl_kw rs) = (rs \<noteq> - 1)"
| "consistent_args _ = True"

section \<open>Concrete nodes\<close>

text \<open>A block of zero bytes, and a block whose unassigned handler fields hold something.\<close>

definition zero_config :: enkf_config_node where
  "zero_config = \<lparr>key = [], impl_type = INVALID_IMPL, infile = None, outfile = None\<rparr>"

definition zero_block :: enkf_node where
  "zero_block =
     \<lparr>alloc = None, ecl_write = None, ecl_load = None, fread_f = None, fwrite_f = None,
      realloc_data = None, free_data = None, serialize = None, deserialize = None,
      initialize = None, freef = None, clear = None, copyc = None, scale = None,
      iadd = None, imul = None, isqrt = None, iaddsqr = None, fprintf_results = None,
      iget = None, get_index = None, node_key = [], data = None, config = zero_config,
      memory_allocated = False, modified = False, report_step = 0,
      state = undefined_state\<rparr>"

definition config_of :: "string \<Rightarrow> enkf_impl_type \<Rightarrow> enkf_config_node" where
  "config_of k impl = \<lparr>key = k, impl_type = impl, infile = None, outfile = None\<rparr>"

text \<open>
  The life of one node: \<^verbatim>\<open>enkf_node_alloc\<close>, then a sequence of calls. The calls made
  by the construction come first in the list of calls.
\<close>

definition lifecycle ::
    "enkf_node \<Rightarrow> void_ptr \<Rightarrow> enkf_config_node option \<Rightarrow> node_op list
       \<Rightarrow> (enkf_node \<times> call list) result" where
  "lifecycle blk new_data cfg_ptr ops =
     (case enkf_node_alloc blk new_data cfg_ptr of
        Inl e \<Rightarrow> Inl e
      | Inr (n0, cs0) \<Rightarrow>
          (case run n0 ops of
             Inl e \<Rightarrow> Inl e
           | Inr (n, cs) \<Rightarrow> Inr (n, cs0 @ cs)))"

text \<open>What a test sees of an outcome: the cache tuple, the memory flag and the calls.\<close>

definition observe ::
    "(enkf_node \<times> call list) result
       \<Rightarrow> (state_enum \<times> int \<times> bool \<times> bool \<times> call list) result" where
  "observe r =
     (case r of
        Inl e \<Rightarrow> Inl e
      | Inr (n, cs) \<Rightarrow> Inr (state n, report_step n, modified n, memory_allocated n, cs))"

text \<open>The node of an outcome that is not an abort.\<close>

definition node_of :: "(enkf_node \<times> call list) result \<Rightarrow> enkf_node" where
  "node_of r = fst (projr r)"

text \<open>
  A GEN_KW node written to the ensemble as (3, forecast), and one whose data was freed.
\<close>

definition gen_kw_written :: enkf_node where
  "gen_kw_written =
     node_of (lifecycle zero_block (Some 1) (Some (config_of ''GEN_KW'' GEN_KW))
                [Fwrite 0 3 forecast True])"

definition gen_kw_freed :: enkf_node where
  "gen_kw_freed =
     node_of (lifecycle zero_block (Some 1) (Some (config_of ''GEN_KW'' GEN_KW)) [Free_data])"

text \<open>The node of a kind as \<^verbatim>\<open>enkf_node_alloc\<close> returns it, and the block it is built in.\<close>

definition constructed_node :: "enkf_node \<Rightarrow> string \<Rightarrow> enkf_impl_type \<Rightarrow> enkf_node" where
  "constructed_node blk k impl = node_of (lifecycle blk (Some 1) (Some (config_of k impl)) [])"

text \<open>A block that holds something where the \<open>scale\<close> pointer of the node will be.\<close>

definition used_block :: enkf_node where
  "used_block = zero_block\<lparr>scale := Some ''left in the block''\<rparr>"

text \<open>A MULTZ node as constructed; MULTZ registers no \<^verbatim>\<open>fprintf_results\<close> function.\<close>

definition multz_node :: "nat \<Rightarrow> enkf_node" where
  "multz_node p =
     node_of (lifecycle zero_block (Some p) (Some (config_of ''MULTZ'' MULTZ)) [])"

section \<open>Basic facts\<close>

lemmas ops_defs = enkf_node_ensure_memory_def enkf_node_alloc_domain_object_def
  enkf_node_assert_memory_def enkf_node_ecl_write_def enkf_node_ecl_load_def
  enkf_node_ecl_load_static_def enkf_node_fwrite_def enkf_node_fread_def
  enkf_node_ens_clear_def enkf_node_serialize_def enkf_node_deserialize_def
  enkf_node_sqrt_def enkf_node_scale_def enkf_node_iadd_def enkf_node_iaddsqr_def
  enkf_node_imul_def enkf_node_initialize_def enkf_node_free_data_def enkf_node_clear_def
  keep_node_def

lemmas alloc_defs = enkf_node_alloc_def enkf_node_alloc_static_def enkf_node_alloc_empty_def

lemmas concrete_defs = observe_def lifecycle_def node_of_def zero_block_def zero_config_def
  config_of_def

lemma alloc_empty_fields:
  assumes "enkf_node_alloc_empty blk cfg = Inr n"
  shows "state n = undefined_state" and "report_step n = - 1" and "modified n"
    and "data n = None" and "\<not> memory_allocated n"
  using assms
  by (auto simp: enkf_node_alloc_empty_def Let_def split: enkf_impl_type.splits)

lemma alloc_empty_bound:
  assumes "enkf_node_alloc_empty blk cfg = Inr n"
  shows "alloc n \<noteq> None" and "fwrite_f n \<noteq> None"
  using assms
  by (auto simp: enkf_node_alloc_empty_def Let_def split: enkf_impl_type.splits)

lemma alloc_ok:
  assumes "enkf_node_alloc blk new_data cfg_ptr = Inr (n, cs)"
  obtains cfg e a where "cfg_ptr = Some cfg" and "enkf_node_alloc_empty blk cfg = Inr e"
    and "alloc e = Some a" and "n = e\<lparr>data := new_data, memory_allocated := True\<rparr>"
    and "cs = [Call a [Config_ref]]"
proof -
  from assms obtain cfg where c: "cfg_ptr = Some cfg"
    by (cases cfg_ptr) (auto simp: enkf_node_alloc_def)
  with assms obtain e where e: "enkf_node_alloc_empty blk cfg = Inr e"
    and d: "enkf_node_alloc_domain_object e new_data = Inr (n, cs)"
    by (auto simp: enkf_node_alloc_def enkf_node_alloc_static_def split: sum.splits)
  from alloc_empty_fields(4)[OF e] alloc_empty_bound(1)[OF e] d
  obtain a where "alloc e = Some a" "n = e\<lparr>data := new_data, memory_allocated := True\<rparr>"
    "cs = [Call a [Config_ref]]"
    by (auto simp: enkf_node_alloc_domain_object_def)
  with c e show thesis using that by blast
qed

lemma lifecycle_ok:
  assumes "lifecycle blk new_data cfg_ptr ops = Inr (n, cs)"
  obtains n0 cs0 cs1 where "enkf_node_alloc blk new_data cfg_ptr = Inr (n0, cs0)"
    and "run n0 ops = Inr (n, cs1)" and "cs = cs0 @ cs1"
  using assms by (auto simp: lifecycle_def split: sum.splits prod.splits)

lemma run_invariant:
  assumes step: "\<And>m x m' cs. P m \<Longrightarrow> x \<in> set xs \<Longrightarrow> apply_op m x = Inr (m', cs) \<Longrightarrow> P m'"
    and "run n xs = Inr (n', cs)" and "P n"
  shows "P n'"
  using assms
proof (induction xs arbitrary: n cs)
  case Nil
  then show ?case by simp
next
  case (Cons x xs)
  from Cons.prems(2) obtain n1 c1 c2 where s1: "apply_op n x = Inr (n1, c1)"
    and s2: "run n1 xs = Inr (n', c2)"
    by (auto split: sum.splits prod.splits)
  have p1: "P n1"
    by (rule Cons.prems(1)[OF Cons.prems(3) _ s1]) simp
  have rest: "P m'" if "P m" and "y \<in> set xs" and "apply_op m y = Inr (m', cs)" for m y m' cs
    by (rule Cons.prems(1)[OF that(1) _ that(3)]) (simp add: that(2))
  show ?case
    by (rule Cons.IH[OF rest s2 p1])
qed

lemma apply_op_clean:
  "apply_op n x = Inr (n', cs) \<Longrightarrow> modified n \<or> memory_allocated n
     \<Longrightarrow> modified n' \<or> memory_allocated n'"
  by (cases x) (auto simp: ops_defs split: option.splits if_splits sum.splits prod.splits)

lemma apply_op_fwrite_f: "apply_op n x = Inr (n', cs) \<Longrightarrow> fwrite_f n' = fwrite_f n"
  by (cases x) (auto simp: ops_defs split: option.splits if_splits sum.splits prod.splits)

lemma apply_op_cache:
  "apply_op n x = Inr (n', cs) \<Longrightarrow> consistent_args x
     \<Longrightarrow> (state n = undefined_state) = (report_step n = - 1)
     \<Longrightarrow> (state n' = undefined_state) = (report_step n' = - 1)"
  by (cases x) (auto simp: ops_defs split: option.splits if_splits sum.splits prod.splits)

text \<open>
  What \<^verbatim>\<open>enkf_node_alloc_empty\<close> leaves NULL, by implementation type, and the six
  handlers it never assigns. No call on a node changes a handler or the key.
\<close>

lemma alloc_empty_table:
  assumes "enkf_node_alloc_empty blk cfg = Inr e"
  shows "node_key e = key cfg"
    and "(realloc_data e = None) = (impl_type cfg = RELPERM \<or> impl_type cfg = EQUIL)"
    and "(ecl_load e = None) = (impl_type cfg \<notin> {WELL, SUMMARY, FIELD})"
    and "(serialize e = None) = (impl_type cfg = STATIC)"
    and "(deserialize e = None) = (impl_type cfg = STATIC)"
    and "(initialize e = None) = (impl_type cfg \<in> {WELL, SUMMARY, STATIC})"
    and "(ecl_write e = None) = (impl_type cfg \<in> {WELL, SUMMARY})"
    and "fread_f e \<noteq> None" and "free_data e \<noteq> None"
  using assms
  by (auto simp: enkf_node_alloc_empty_def Let_def split: enkf_impl_type.splits)

lemma alloc_empty_unassigned:
  assumes "enkf_node_alloc_empty blk cfg = Inr e"
  shows "clear e = clear blk" and "scale e = scale blk" and "iadd e = iadd blk"
    and "imul e = imul blk" and "isqrt e = isqrt blk" and "iaddsqr e = iaddsqr blk"
  using assms
  by (auto simp: enkf_node_alloc_empty_def Let_def split: enkf_impl_type.splits)

lemma apply_op_handlers:
  assumes "apply_op n x = Inr (n', cs)"
  shows "node_key n' = node_key n \<and> realloc_data n' = realloc_data n
         \<and> ecl_load n' = ecl_load n \<and> serialize n' = serialize n
         \<and> deserialize n' = deserialize n \<and> initialize n' = initialize n
         \<and> ecl_write n' = ecl_write n \<and> fread_f n' = fread_f n
         \<and> free_data n' = free_data n"
  using assms
  by (cases x) (auto simp: ops_defs split: option.splits if_splits sum.splits prod.splits)

lemma lifecycle_handlers:
  assumes "lifecycle blk new_data (Some cfg) ops = Inr (n, cs)"
  obtains e where "enkf_node_alloc_empty blk cfg = Inr e"
    and "node_key n = node_key e" and "realloc_data n = realloc_data e"
    and "ecl_load n = ecl_load e" and "serialize n = serialize e"
    and "deserialize n = deserialize e" and "initialize n = initialize e"
    and "ecl_write n = ecl_write e" and "fread_f n = fread_f e"
    and "free_data n = free_data e" and "fwrite_f n = fwrite_f e"
proof -
  from assms obtain n0 cs0 cs1 where a: "enkf_node_alloc blk new_data (Some cfg) = Inr (n0, cs0)"
    and r: "run n0 ops = Inr (n, cs1)"
    by (rule lifecycle_ok)
  from a obtain cfg' e where c: "Some cfg = Some cfg'"
    and e: "enkf_node_alloc_empty blk cfg' = Inr e"
    and n0: "n0 = e\<lparr>data := new_data, memory_allocated := True\<rparr>"
    by (rule alloc_ok)
  let ?P = "\<lambda>m. node_key m = node_key n0 \<and> realloc_data m = realloc_data n0
         \<and> ecl_load m = ecl_load n0 \<and> serialize m = serialize n0
         \<and> deserialize m = deserialize n0 \<and> initialize m = initialize n0
         \<and> ecl_write m = ecl_write n0 \<and> fread_f m = fread_f n0
         \<and> free_data m = free_data n0 \<and> fwrite_f m = fwrite_f n0"
  have step: "?P m'" if "?P m" and "apply_op m x = Inr (m', cs)" for m x m' cs
    using apply_op_handlers[OF that(2)] apply_op_fwrite_f[OF that(2)] that(1) by simp
  have "?P n"
    by (rule run_invariant[where P = ?P, OF _ r]) (erule step, assumption, simp)
  then show thesis
    using that[of e] e c by (simp add: n0)
qed

section \<open>Concrete nodes, evaluated\<close>

lemma gen_kw_written_eval:
  "lifecycle zero_block (Some 1) (Some (config_of ''GEN_KW'' GEN_KW)) [Fwrite 0 3 forecast True]
     = Inr (gen_kw_written,
            [Call ''gen_kw_alloc__'' [Config_ref], Call ''gen_kw_fwrite__'' [Data (Some 1), Ptr 0]])"
  "state gen_kw_written = forecast" "report_step gen_kw_written = 3"
  "\<not> modified gen_kw_written" "memory_allocated gen_kw_written"
  "data gen_kw_written = Some 1"
  "serialize gen_kw_written = Some ''gen_kw_serialize__''"
  "deserialize gen_kw_written = Some ''gen_kw_deserialize__''"
  "fread_f gen_kw_written = Some ''gen_kw_fread__''"
  "realloc_data gen_kw_written = Some ''gen_kw_realloc_data__''"
  by (simp_all add: gen_kw_written_def concrete_defs alloc_defs ops_defs)

lemma gen_kw_freed_eval:
  "lifecycle zero_block (Some 1) (Some (config_of ''GEN_KW'' GEN_KW)) [Free_data]
     = Inr (gen_kw_freed,
            [Call ''gen_kw_alloc__'' [Config_ref], Call ''gen_kw_free_data__'' [Data (Some 1)]])"
  "state gen_kw_freed = undefined_state" "report_step gen_kw_freed = - 1"
  "modified gen_kw_freed" "\<not> memory_allocated gen_kw_freed"
  "data gen_kw_freed = Some 1"
  "fread_f gen_kw_freed = Some ''gen_kw_fread__''"
  "realloc_data gen_kw_freed = Some ''gen_kw_realloc_data__''"
  by (simp_all add: gen_kw_freed_def concrete_defs alloc_defs ops_defs)

lemma constructed_eval:
  "lifecycle zero_block (Some 1) (Some (config_of ''STATIC'' STATIC)) []
     = Inr (constructed_node zero_block ''STATIC'' STATIC,
            [Call ''ecl_static_kw_alloc__'' [Config_ref]])"
  "lifecycle zero_block (Some 1) (Some (config_of ''WELL'' WELL)) []
     = Inr (constructed_node zero_block ''WELL'' WELL, [Call ''well_alloc__'' [Config_ref]])"
  "lifecycle zero_block (Some 1) (Some (config_of ''RELPERM'' RELPERM)) []
     = Inr (constructed_node zero_block ''RELPERM'' RELPERM,
            [Call ''relperm_alloc__'' [Config_ref]])"
  by (simp_all add: constructed_node_def concrete_defs alloc_defs ops_defs)

section \<open>Loading from the ensemble\<close>

text \<open>
  What \<^verbatim>\<open>enkf_node_fread\<close> does on a node whose \<^verbatim>\<open>fread_f\<close> and \<^verbatim>\<open>realloc_data\<close> are
  registered: on the skip path nothing is called and the node is returned as it is;
  off it, the data are reallocated if they were freed, the read function is called and the
  node records the snapshot as unmodified.
\<close>

lemma enkf_node_fread_skip:
  "rs = report_step n \<Longrightarrow> st = state n \<Longrightarrow> \<not> modified n
     \<Longrightarrow> enkf_node_fread n stream rs st = Inr (n, [])"
  by (simp add: enkf_node_fread_def)

lemma enkf_node_fread_reads:
  "\<not> (rs = report_step n \<and> st = state n \<and> \<not> modified n) \<Longrightarrow> fread_f n = Some f
     \<Longrightarrow> realloc_data n = Some r
     \<Longrightarrow> enkf_node_fread n stream rs st =
           Inr (n\<lparr>memory_allocated := True, modified := False, report_step := rs, state := st\<rparr>,
                (if memory_allocated n then [] else [Call r [Data (data n)]])
                @ [Call f [Data (data n), Ptr stream]])"
  by (auto simp: enkf_node_fread_def enkf_node_ensure_memory_def)

text \<open>
  Claim C1: for every node, \<^verbatim>\<open>enkf_node_fread\<close> off the skip path ensures the memory,
  calls the read function and records \<open>(state, report_step)\<close> as unmodified.
  The source comment asks every implementation for a \<^verbatim>\<open>realloc_data\<close> function, but
  \<^verbatim>\<open>enkf_node_alloc_empty\<close> registers none for RELPERM (nor for EQUIL). On a RELPERM node
  as constructed, loading (3, forecast) aborts in \<^verbatim>\<open>enkf_node_ensure_memory\<close>: the read
  function is not called and no cache tuple is set.
\<close>

theorem fread_relperm_aborts:
  "observe (lifecycle zero_block (Some 1) (Some (config_of ''RELPERM'' RELPERM))
              [Fread 0 3 forecast])
   = Inl (Not_registered ''enkf_node_ensure_memory'' ''enkf_node->realloc_data'' ''RELPERM'')"
  by (simp add: concrete_defs alloc_defs ops_defs)

section \<open>Deserializing\<close>

text \<open>
  Claim C2, as the code has it: on a node whose \<^verbatim>\<open>serialize\<close> and \<^verbatim>\<open>deserialize\<close>
  functions are registered, \<^verbatim>\<open>enkf_node_deserialize\<close> calls the deserialize function and
  sets \<open>modified\<close>, leaving \<open>state\<close> and \<open>report_step\<close> as they were. Loading the
  snapshot the node held then never takes the skip path; where \<^verbatim>\<open>fread_f\<close> and
  \<^verbatim>\<open>realloc_data\<close> are registered it calls the read function and the node is unmodified
  at that snapshot again.
\<close>

theorem deserialize_forces_reload:
  assumes "serialize n = Some g" and "deserialize n = Some d"
  shows "enkf_node_deserialize n v =
           Inr (n\<lparr>modified := True\<rparr>, [Call d [Data (data n), Serial_state, Ptr v]])
         \<and> enkf_node_fread (n\<lparr>modified := True\<rparr>) s (report_step n) (state n)
             \<noteq> Inr (n\<lparr>modified := True\<rparr>, [])
         \<and> (\<forall>f r. fread_f n = Some f \<and> realloc_data n = Some r \<longrightarrow>
               enkf_node_fread (n\<lparr>modified := True\<rparr>) s (report_step n) (state n) =
                 Inr (n\<lparr>memory_allocated := True, modified := False\<rparr>,
                      (if memory_allocated n then [] else [Call r [Data (data n)]])
                      @ [Call f [Data (data n), Ptr s]]))"
  using assms
  by (auto simp: enkf_node_deserialize_def enkf_node_fread_def enkf_node_ensure_memory_def
           split: option.splits)

text \<open>
  The theorem at the GEN_KW node written as (3, forecast): before the deserialize the
  load is skipped, after it the read function is called.
\<close>

theorem deserialize_forces_reload_witness:
  "serialize gen_kw_written = Some ''gen_kw_serialize__''
   \<and> deserialize gen_kw_written = Some ''gen_kw_deserialize__''
   \<and> enkf_node_fread gen_kw_written 0 3 forecast = Inr (gen_kw_written, [])
   \<and> observe (enkf_node_deserialize gen_kw_written 7)
       = Inr (forecast, 3, True, True,
              [Call ''gen_kw_deserialize__'' [Data (Some 1), Serial_state, Ptr 7]])
   \<and> observe (enkf_node_fread (gen_kw_written\<lparr>modified := True\<rparr>) 0 3 forecast)
       = Inr (forecast, 3, False, True, [Call ''gen_kw_fread__'' [Data (Some 1), Ptr 0]])"
  using deserialize_forces_reload[OF gen_kw_written_eval(7) gen_kw_written_eval(8), of 7 0]
  by (simp add: gen_kw_written_eval observe_def enkf_node_fread_def)

text \<open>
  Claim C2 as stated fails on a STATIC node, which registers no \<^verbatim>\<open>serialize\<close>
  function: \<^verbatim>\<open>enkf_node_deserialize\<close> aborts and sets nothing.
\<close>

theorem deserialize_static_aborts:
  "observe (lifecycle zero_block (Some 1) (Some (config_of ''STATIC'' STATIC)) [Deserialize 0])
   = Inl (Not_registered ''enkf_node_deserialize'' ''enkf_node->serialize'' ''STATIC'')"
  by (simp add: concrete_defs alloc_defs ops_defs)

section \<open>Handlers that are not registered\<close>

text \<open>
  Claim C3, as the code has it, on every node reached from \<^verbatim>\<open>enkf_node_alloc\<close> by any
  sequence of calls. Where the implementation type registered no \<^verbatim>\<open>realloc_data\<close>
  (RELPERM, EQUIL), ensuring the memory aborts with the diagnostic of \<^verbatim>\<open>FUNC_ASSERT\<close>;
  where it registered no \<^verbatim>\<open>ecl_load\<close> (every type but WELL, SUMMARY and FIELD), loading
  ECLIPSE results aborts so; where it registered neither \<^verbatim>\<open>serialize\<close> nor
  \<^verbatim>\<open>deserialize\<close> (STATIC), serialize and deserialize abort so. Every type registers
  \<^verbatim>\<open>fread_f\<close>, \<^verbatim>\<open>fwrite_f\<close> and \<^verbatim>\<open>free_data\<close>. \<^verbatim>\<open>enkf_node_initialize\<close> and
  \<^verbatim>\<open>enkf_node_ecl_write\<close> test their handler themselves: on a type that registered none
  (WELL, SUMMARY, STATIC; WELL, SUMMARY) they return with the node as it was and no call.
\<close>

theorem unbound_handler_outcomes:
  assumes "lifecycle blk new_data (Some cfg) ops = Inr (n, cs)"
  shows "(impl_type cfg = RELPERM \<or> impl_type cfg = EQUIL \<longrightarrow>
            enkf_node_ensure_memory n =
              Inl (Not_registered ''enkf_node_ensure_memory'' ''enkf_node->realloc_data''
                     (key cfg)))
         \<and> (impl_type cfg \<notin> {WELL, SUMMARY, FIELD} \<longrightarrow>
            enkf_node_ecl_load n run_path ecl_sum restart_block rs =
              Inl (Not_registered ''enkf_node_ecl_load'' ''enkf_node->ecl_load'' (key cfg)))
         \<and> (impl_type cfg = STATIC \<longrightarrow>
            enkf_node_serialize n offset serial_vector elements_added completed =
              Inl (Not_registered ''enkf_node_serialize'' ''enkf_node->serialize'' (key cfg))
            \<and> enkf_node_deserialize n serial_vector =
              Inl (Not_registered ''enkf_node_deserialize'' ''enkf_node->serialize'' (key cfg)))
         \<and> (impl_type cfg \<in> {WELL, SUMMARY, STATIC} \<longrightarrow>
            enkf_node_initialize n iens = Inr (n, []))
         \<and> (impl_type cfg \<in> {WELL, SUMMARY} \<longrightarrow>
            enkf_node_ecl_write n path restart_fortio = Inr [])
         \<and> fread_f n \<noteq> None \<and> fwrite_f n \<noteq> None \<and> free_data n \<noteq> None"
proof -
  from assms obtain e where e: "enkf_node_alloc_empty blk cfg = Inr e"
    and h: "node_key n = node_key e" "realloc_data n = realloc_data e"
      "ecl_load n = ecl_load e" "serialize n = serialize e" "deserialize n = deserialize e"
      "initialize n = initialize e" "ecl_write n = ecl_write e" "fread_f n = fread_f e"
      "free_data n = free_data e" "fwrite_f n = fwrite_f e"
    by (rule lifecycle_handlers)
  note t = alloc_empty_table[OF e]
  have k: "node_key n = key cfg" using h(1) t(1) by simp
  have 1: "enkf_node_ensure_memory n =
      Inl (Not_registered ''enkf_node_ensure_memory'' ''enkf_node->realloc_data'' (key cfg))"
    if "impl_type cfg = RELPERM \<or> impl_type cfg = EQUIL"
    using that t(2) h(2) k by (simp add: enkf_node_ensure_memory_def)
  have 2: "enkf_node_ecl_load n run_path ecl_sum restart_block rs =
      Inl (Not_registered ''enkf_node_ecl_load'' ''enkf_node->ecl_load'' (key cfg))"
    if "impl_type cfg \<notin> {WELL, SUMMARY, FIELD}"
    using that t(3) h(3) k by (simp add: enkf_node_ecl_load_def)
  have 3: "enkf_node_serialize n offset serial_vector elements_added completed =
        Inl (Not_registered ''enkf_node_serialize'' ''enkf_node->serialize'' (key cfg))
      \<and> enkf_node_deserialize n serial_vector =
        Inl (Not_registered ''enkf_node_deserialize'' ''enkf_node->serialize'' (key cfg))"
    if "impl_type cfg = STATIC"
    using that t(4) h(4) k by (simp add: enkf_node_serialize_def enkf_node_deserialize_def)
  have 4: "enkf_node_initialize n iens = Inr (n, [])"
    if "impl_type cfg \<in> {WELL, SUMMARY, STATIC}"
    using that t(6) h(6) by (simp add: enkf_node_initialize_def)
  have 5: "enkf_node_ecl_write n path restart_fortio = Inr []"
    if "impl_type cfg \<in> {WELL, SUMMARY}"
    using that t(7) h(7) by (simp add: enkf_node_ecl_write_def)
  have 6: "fread_f n \<noteq> None" "free_data n \<noteq> None"
    using t(8,9) h(8,9) by simp_all
  have 7: "fwrite_f n \<noteq> None"
    using alloc_empty_bound(2)[OF e] h(10) by simp
  from 1 2 3 4 5 6 7 show ?thesis by blast
qed

text \<open>
  The theorem at a RELPERM, a STATIC and a WELL node as constructed.
\<close>

theorem unbound_handler_outcomes_witness:
  "enkf_node_ensure_memory (constructed_node zero_block ''RELPERM'' RELPERM) =
     Inl (Not_registered ''enkf_node_ensure_memory'' ''enkf_node->realloc_data'' ''RELPERM'')
   \<and> enkf_node_ecl_load (constructed_node zero_block ''STATIC'' STATIC) ''run'' 0 0 3 =
     Inl (Not_registered ''enkf_node_ecl_load'' ''enkf_node->ecl_load'' ''STATIC'')
   \<and> enkf_node_serialize (constructed_node zero_block ''STATIC'' STATIC) 0 0 4 True =
     Inl (Not_registered ''enkf_node_serialize'' ''enkf_node->serialize'' ''STATIC'')
   \<and> enkf_node_deserialize (constructed_node zero_block ''STATIC'' STATIC) 0 =
     Inl (Not_registered ''enkf_node_deserialize'' ''enkf_node->serialize'' ''STATIC'')
   \<and> enkf_node_initialize (constructed_node zero_block ''STATIC'' STATIC) 0 =
     Inr (constructed_node zero_block ''STATIC'' STATIC, [])
   \<and> enkf_node_initialize (constructed_node zero_block ''WELL'' WELL) 0 =
     Inr (constructed_node zero_block ''WELL'' WELL, [])
   \<and> enkf_node_ecl_write (constructed_node zero_block ''WELL'' WELL) ''run'' 0 = Inr []"
  using unbound_handler_outcomes[OF constructed_eval(1), of "''run''" 0 0 3 0 0 4 True 0 "''run''" 0]
    unbound_handler_outcomes[OF constructed_eval(2), of "''run''" 0 0 3 0 0 4 True 0 "''run''" 0]
    unbound_handler_outcomes[OF constructed_eval(3), of "''run''" 0 0 3 0 0 4 True 0 "''run''" 0]
  by (simp add: config_of_def)

text \<open>
  Claim C3 as stated fails for initialize: WELL registers no \<^verbatim>\<open>initialize\<close> function,
  and \<^verbatim>\<open>enkf_node_initialize\<close> on a WELL node returns with the node as it was and no call
  beyond the construction's.
\<close>

theorem initialize_well_silent:
  "observe (lifecycle zero_block (Some 1) (Some (config_of ''WELL'' WELL)) [Initialize 0])
   = Inr (undefined_state, - 1, True, True, [Call ''well_alloc__'' [Config_ref]])"
  by (simp add: concrete_defs alloc_defs ops_defs)

text \<open>
  The handlers of \<open>clear\<close>, \<open>sqrt\<close>, \<open>scale\<close>, \<open>iadd\<close>, \<open>iaddsqr\<close> and \<open>imul\<close>
  are tested by \<^verbatim>\<open>FUNC_ASSERT\<close>, which aborts on a NULL handler. The construction
  never assigns them, although its comment announces that all function pointers start as
  NULL (\<open>alloc_empty_unassigned\<close>): in a node built in a block that held something
  there, \<^verbatim>\<open>enkf_node_scale\<close> calls what the block held and prints no diagnostic.
\<close>

lemma null_handler_aborts:
  "enkf_node_clear (n\<lparr>clear := None\<rparr>) =
     Inl (Not_registered ''enkf_node_clear'' ''enkf_node->clear'' (node_key n))"
  "enkf_node_ens_clear (n\<lparr>clear := None\<rparr>) =
     Inl (Not_registered ''enkf_node_ens_clear'' ''enkf_node->clear'' (node_key n))"
  "enkf_node_sqrt (n\<lparr>isqrt := None\<rparr>) =
     Inl (Not_registered ''enkf_node_sqrt'' ''enkf_node->isqrt'' (node_key n))"
  "enkf_node_scale (n\<lparr>scale := None\<rparr>) scale_factor =
     Inl (Not_registered ''enkf_node_scale'' ''enkf_node->scale'' (node_key n))"
  "enkf_node_iadd (n\<lparr>iadd := None\<rparr>) delta_node =
     Inl (Not_registered ''enkf_node_iadd'' ''enkf_node->iadd'' (node_key n))"
  "enkf_node_iaddsqr (n\<lparr>iaddsqr := None\<rparr>) delta_node =
     Inl (Not_registered ''enkf_node_iaddsqr'' ''enkf_node->iaddsqr'' (node_key n))"
  "enkf_node_imul (n\<lparr>imul := None\<rparr>) delta_node =
     Inl (Not_registered ''enkf_node_imul'' ''enkf_node->imul'' (node_key n))"
  by (simp_all add: ops_defs)

lemma scale_calls_block_content:
  "observe (lifecycle used_block (Some 1) (Some (config_of ''GEN_KW'' GEN_KW)) [Scale 2])
   = Inr (undefined_state, - 1, True, True,
          [Call ''gen_kw_alloc__'' [Config_ref],
           Call ''left in the block'' [Data (Some 1), Dbl 2]])"
  by (simp add: used_block_def concrete_defs alloc_defs ops_defs)


section \<open>Copying\<close>

text \<open>
  Claim C4, as the code has it: \<^verbatim>\<open>enkf_node_copyc\<close> never returns a node. Without a
  \<^verbatim>\<open>copyc\<close> function it aborts at once; with one it allocates a node from the config of
  the source and then aborts as not implemented (or aborts inside the allocation when
  the implementation type is unknown).
\<close>

theorem copyc_never_returns:
  "enkf_node_copyc src blk new_data =
     Inl (case copyc src of
            None \<Rightarrow> Abort ''Har ikke copyc funksjon''
          | Some _ \<Rightarrow>
              if impl_type (config src) = INVALID_IMPL
              then Util_abort ''enkf_node_alloc_empty'' ''implementation type unknown''
              else Abort ''enkf_node_copyc: not properly implemented ... '')"
  by (cases "impl_type (config src)")
     (simp_all add: enkf_node_copyc_def alloc_defs enkf_node_alloc_domain_object_def
        split: option.splits)

text \<open>
  Claim C4 as stated fails on a GEN_KW node, whose \<^verbatim>\<open>copyc\<close> function is registered:
  the copy aborts.
\<close>

theorem copyc_gen_kw_aborts:
  "enkf_node_copyc
     (node_of (lifecycle zero_block (Some 1) (Some (config_of ''GEN_KW'' GEN_KW)) []))
     zero_block (Some 2)
   = Inl (Abort ''enkf_node_copyc: not properly implemented ... '')"
  by (simp add: enkf_node_copyc_def concrete_defs alloc_defs ops_defs)

section \<open>Construction\<close>

text \<open>
  Claim C5, as the code has it: \<^verbatim>\<open>enkf_node_alloc\<close> returns a node with the cache tuple
  (undefined, -1, modified) whose domain object is already allocated: \<^verbatim>\<open>alloc\<close> was
  called once, \<open>data\<close> is what it returned and \<open>memory_allocated\<close> is set. Only the
  intermediate node of \<^verbatim>\<open>enkf_node_alloc_empty\<close> has no data and no memory. On the
  constructed node \<^verbatim>\<open>enkf_node_ensure_memory\<close> reallocates nothing.
\<close>

theorem alloc_cache_state:
  assumes "enkf_node_alloc blk new_data cfg_ptr = Inr (n, cs)"
  shows "state n = undefined_state \<and> report_step n = - 1 \<and> modified n
         \<and> memory_allocated n \<and> data n = new_data
         \<and> (\<exists>a. alloc n = Some a \<and> cs = [Call a [Config_ref]])
         \<and> (\<exists>cfg e. cfg_ptr = Some cfg \<and> enkf_node_alloc_empty blk cfg = Inr e
                \<and> data e = None \<and> \<not> memory_allocated e
                \<and> n = e\<lparr>data := new_data, memory_allocated := True\<rparr>)
         \<and> (\<forall>r. realloc_data n = Some r \<longrightarrow> enkf_node_ensure_memory n = Inr (n, []))"
proof -
  from assms obtain cfg e a where c: "cfg_ptr = Some cfg"
    and e: "enkf_node_alloc_empty blk cfg = Inr e" and a: "alloc e = Some a"
    and n: "n = e\<lparr>data := new_data, memory_allocated := True\<rparr>"
    and cs: "cs = [Call a [Config_ref]]"
    by (rule alloc_ok)
  note f = alloc_empty_fields[OF e]
  have "state n = undefined_state" "report_step n = - 1" "modified n" "memory_allocated n"
    "data n = new_data" "alloc n = Some a"
    using f a by (simp_all add: n)
  moreover have "\<forall>r. realloc_data n = Some r \<longrightarrow> enkf_node_ensure_memory n = Inr (n, [])"
    by (simp add: enkf_node_ensure_memory_def n)
  ultimately show ?thesis using c e f(4,5) n cs by blast
qed

text \<open>
  The theorem at a FIELD node.
\<close>

theorem alloc_cache_state_witness:
  "enkf_node_alloc zero_block (Some 1) (Some (config_of ''FIELD'' FIELD))
     = Inr (node_of (enkf_node_alloc zero_block (Some 1) (Some (config_of ''FIELD'' FIELD))),
            [Call ''field_alloc__'' [Config_ref]])
   \<and> memory_allocated
       (node_of (enkf_node_alloc zero_block (Some 1) (Some (config_of ''FIELD'' FIELD))))
   \<and> realloc_data
       (node_of (enkf_node_alloc zero_block (Some 1) (Some (config_of ''FIELD'' FIELD))))
       = Some ''field_realloc_data__''
   \<and> enkf_node_ensure_memory
       (node_of (enkf_node_alloc zero_block (Some 1) (Some (config_of ''FIELD'' FIELD))))
       = Inr (node_of (enkf_node_alloc zero_block (Some 1) (Some (config_of ''FIELD'' FIELD))),
              [])"
proof -
  have h: "enkf_node_alloc zero_block (Some 1) (Some (config_of ''FIELD'' FIELD))
     = Inr (node_of (enkf_node_alloc zero_block (Some 1) (Some (config_of ''FIELD'' FIELD))),
            [Call ''field_alloc__'' [Config_ref]])"
    by (simp add: concrete_defs alloc_defs ops_defs)
  have r: "realloc_data
       (node_of (enkf_node_alloc zero_block (Some 1) (Some (config_of ''FIELD'' FIELD))))
       = Some ''field_realloc_data__''"
    by (simp add: concrete_defs alloc_defs ops_defs)
  from alloc_cache_state[OF h] h r show ?thesis by blast
qed

text \<open>
  Claim C5 as stated fails on a GEN_KW node: after the construction alone the memory
  flag is set and \<^verbatim>\<open>gen_kw_alloc__\<close> has been called.
\<close>

theorem alloc_gen_kw_has_memory:
  "observe (lifecycle zero_block (Some 1) (Some (config_of ''GEN_KW'' GEN_KW)) [])
   = Inr (undefined_state, - 1, True, True, [Call ''gen_kw_alloc__'' [Config_ref]])"
  by (simp add: concrete_defs alloc_defs ops_defs)

section \<open>Writing to the ensemble\<close>

text \<open>
  Claim C6: on every node reached from \<^verbatim>\<open>enkf_node_alloc\<close> by any sequence of calls,
  \<^verbatim>\<open>enkf_node_fwrite\<close> aborts when the memory is not allocated; when it is, the write
  function (which every implementation registers) is called once and the node records
  \<open>(state, report_step)\<close> as unmodified.
\<close>

theorem fwrite_after_lifecycle:
  assumes "lifecycle blk new_data cfg_ptr ops = Inr (n, cs)"
  shows "\<exists>f. fwrite_f n = Some f \<and>
           enkf_node_fwrite n stream rs st data_written =
             (if memory_allocated n
              then Inr (data_written,
                        n\<lparr>report_step := rs, state := st, modified := False\<rparr>,
                        [Call f [Data (data n), Ptr stream]])
              else Inl (Util_abort ''enkf_node_fwrite''
                     ''fatal internal error: tried to save node - memory is not allocated''))"
proof -
  from assms obtain n0 cs0 cs1 where a: "enkf_node_alloc blk new_data cfg_ptr = Inr (n0, cs0)"
    and r: "run n0 ops = Inr (n, cs1)"
    by (rule lifecycle_ok)
  from a obtain cfg e where e: "enkf_node_alloc_empty blk cfg = Inr e"
    and n0: "n0 = e\<lparr>data := new_data, memory_allocated := True\<rparr>"
    by (rule alloc_ok)
  have "fwrite_f n0 \<noteq> None"
    using alloc_empty_bound(2)[OF e] by (simp add: n0)
  have "fwrite_f n = fwrite_f n0"
    by (rule run_invariant[where P = "\<lambda>m. fwrite_f m = fwrite_f n0", OF _ r])
       (simp_all add: apply_op_fwrite_f)
  with \<open>fwrite_f n0 \<noteq> None\<close> obtain f where "fwrite_f n = Some f" by auto
  then show ?thesis by (auto simp: enkf_node_fwrite_def)
qed

text \<open>
  The theorem at a written GEN_KW node, and at one whose data were freed.
\<close>

theorem fwrite_after_lifecycle_witness:
  "enkf_node_fwrite gen_kw_written 0 4 analyzed True
     = Inr (True, gen_kw_written\<lparr>report_step := 4, state := analyzed, modified := False\<rparr>,
            [Call ''gen_kw_fwrite__'' [Data (Some 1), Ptr 0]])
   \<and> enkf_node_fwrite gen_kw_freed 0 4 analyzed True
     = Inl (Util_abort ''enkf_node_fwrite''
              ''fatal internal error: tried to save node - memory is not allocated'')"
  using fwrite_after_lifecycle[OF gen_kw_written_eval(1), of 0 4 analyzed True]
    fwrite_after_lifecycle[OF gen_kw_freed_eval(1), of 0 4 analyzed True]
  by (auto simp: gen_kw_written_eval gen_kw_freed_eval gen_kw_written_def gen_kw_freed_def
        concrete_defs alloc_defs ops_defs)

section \<open>Freeing the data\<close>

text \<open>
  \<^verbatim>\<open>enkf_node_free_data\<close> calls the \<^verbatim>\<open>free_data\<close> function and resets the four state
  fields; a second call does the same and ends in the same node. Where \<^verbatim>\<open>realloc_data\<close>
  is registered, the next load or initialize reallocates once, before its own call.
\<close>

lemma enkf_node_free_data_resets:
  "free_data n = Some f \<Longrightarrow>
     enkf_node_free_data n =
       Inr (n\<lparr>memory_allocated := False, report_step := - 1, state := undefined_state,
              modified := True\<rparr>, [Call f [Data (data n)]])"
  by (simp add: enkf_node_free_data_def)

lemma enkf_node_free_data_twice:
  "enkf_node_free_data n = Inr (n1, cs1) \<Longrightarrow> enkf_node_free_data n1 = Inr (n1, cs1)"
  by (auto simp: enkf_node_free_data_def split: option.splits)

lemma mutating_call_after_free_data:
  assumes "enkf_node_free_data n = Inr (n1, cs1)" and "realloc_data n = Some r"
  shows "fread_f n = Some f \<Longrightarrow>
           enkf_node_fread n1 stream rs st =
             Inr (n1\<lparr>memory_allocated := True, modified := False, report_step := rs,
                     state := st\<rparr>,
                  [Call r [Data (data n)], Call f [Data (data n), Ptr stream]])"
    and "initialize n = Some i \<Longrightarrow>
           enkf_node_initialize n1 iens =
             Inr (n1\<lparr>memory_allocated := True, report_step := 0, state := analyzed,
                     modified := True\<rparr>,
                  [Call r [Data (data n)], Call i [Data (data n), Num iens]])"
  using assms
  by (auto simp: enkf_node_free_data_def enkf_node_fread_def enkf_node_initialize_def
        enkf_node_ensure_memory_def split: option.splits)

text \<open>
  Claim C7: after \<^verbatim>\<open>enkf_node_free_data\<close>, called once or twice, the next mutating call
  reallocates the data exactly once before using them. EQUIL registers an
  \<^verbatim>\<open>initialize\<close> function but no \<^verbatim>\<open>realloc_data\<close>: on an EQUIL node the initialize after
  the free aborts in \<^verbatim>\<open>enkf_node_ensure_memory\<close> and reallocates nothing.
\<close>

theorem initialize_after_free_equil_aborts:
  "observe (lifecycle zero_block (Some 1) (Some (config_of ''EQUIL'' EQUIL))
              [Free_data, Free_data, Initialize 0])
   = Inl (Not_registered ''enkf_node_ensure_memory'' ''enkf_node->realloc_data'' ''EQUIL'')"
  by (simp add: concrete_defs alloc_defs ops_defs)

section \<open>The report of an ensemble\<close>

text \<open>
  With a registered \<^verbatim>\<open>fprintf_results\<close> function the data pointers of all members go
  to one call of it.
\<close>

lemma fprintf_results_bound:
  "fprintf_results first = Some f \<Longrightarrow>
     enkf_node_ensemble_fprintf_results (first # others) (1 + int (length others)) rs path =
       Inr [Call f [Data_pointers (map data (first # others)), Num (1 + int (length others)),
                    Full_path path (node_key first)]]"
  by (simp add: enkf_node_ensemble_fprintf_results_def nat_add_distrib)

text \<open>
  Claim C8: the report of an ensemble whose implementation has no formatter fails as a
  contract violation. The assertion in \<^verbatim>\<open>enkf_node_ensemble_fprintf_results\<close> is
  commented out: on two MULTZ nodes the function calls through the NULL pointer.
\<close>

theorem fprintf_results_multz_null_call:
  "enkf_node_ensemble_fprintf_results [multz_node 1, multz_node 2] 2 0 ''results''
   = Inl (Null_call ''ensemble[0]->fprintf_results'')"
  by (simp add: enkf_node_ensemble_fprintf_results_def multz_node_def concrete_defs alloc_defs
        ops_defs)

section \<open>Invariants of the cache state\<close>

text \<open>
  Claim C9, as the code has it: the state is undefined exactly when the report step is
  -1, in every node reached from \<^verbatim>\<open>enkf_node_alloc\<close> by calls whose arguments are
  consistent in that way (see \<open>consistent_args\<close>). The functions store the arguments
  they are given and test nothing.
\<close>

theorem cache_invariant_consistent_args:
  assumes "lifecycle blk new_data cfg_ptr ops = Inr (n, cs)"
    and "list_all consistent_args ops"
  shows "(state n = undefined_state) = (report_step n = - 1)"
proof -
  from assms(1) obtain n0 cs0 cs1 where a: "enkf_node_alloc blk new_data cfg_ptr = Inr (n0, cs0)"
    and r: "run n0 ops = Inr (n, cs1)"
    by (rule lifecycle_ok)
  from a obtain cfg e where e: "enkf_node_alloc_empty blk cfg = Inr e"
    and n0: "n0 = e\<lparr>data := new_data, memory_allocated := True\<rparr>"
    by (rule alloc_ok)
  have i0: "(state n0 = undefined_state) = (report_step n0 = - 1)"
    using alloc_empty_fields(1,2)[OF e] by (simp add: n0)
  show ?thesis
  proof (rule run_invariant[where P = "\<lambda>m. (state m = undefined_state) = (report_step m = - 1)",
        OF _ r i0])
    fix m x m' cs
    assume "(state m = undefined_state) = (report_step m = - 1)" and "x \<in> set ops"
      and "apply_op m x = Inr (m', cs)"
    moreover from \<open>x \<in> set ops\<close> assms(2) have "consistent_args x"
      by (simp add: list_all_iff)
    ultimately show "(state m' = undefined_state) = (report_step m' = - 1)"
      by (simp add: apply_op_cache)
  qed
qed

text \<open>
  The theorem at the written and at the freed GEN_KW node.
\<close>

theorem cache_invariant_consistent_args_witness:
  "list_all consistent_args [Fwrite 0 3 forecast True]
   \<and> state gen_kw_written \<noteq> undefined_state \<and> report_step gen_kw_written \<noteq> - 1
   \<and> list_all consistent_args [Free_data]
   \<and> state gen_kw_freed = undefined_state \<and> report_step gen_kw_freed = - 1"
proof -
  have a: "list_all consistent_args [Fwrite 0 3 forecast True]" by simp
  have b: "list_all consistent_args [Free_data]" by simp
  from cache_invariant_consistent_args[OF gen_kw_written_eval(1) a]
    cache_invariant_consistent_args[OF gen_kw_freed_eval(1) b]
  show ?thesis by (simp add: gen_kw_written_eval gen_kw_freed_eval)
qed

text \<open>
  Claim C9 as stated fails: writing a MULTZ node as (-1, forecast) leaves the state
  forecast with report step -1.
\<close>

theorem fwrite_breaks_cache_invariant:
  "observe (lifecycle zero_block (Some 1) (Some (config_of ''MULTZ'' MULTZ))
              [Fwrite 0 (- 1) forecast True])
   = Inr (forecast, - 1, False, True,
          [Call ''multz_alloc__'' [Config_ref], Call ''multz_fwrite__'' [Data (Some 1), Ptr 0]])"
  by (simp add: concrete_defs alloc_defs ops_defs)

text \<open>
  Claim C10: a node reached from \<^verbatim>\<open>enkf_node_alloc\<close> by any sequence of calls is
  modified or has its memory allocated; so on a node without memory
  \<^verbatim>\<open>enkf_node_fread\<close> never returns by the skip path.
\<close>

theorem clean_implies_memory:
  assumes "lifecycle blk new_data cfg_ptr ops = Inr (n, cs)"
  shows "(modified n \<or> memory_allocated n)
         \<and> (\<not> memory_allocated n \<longrightarrow> enkf_node_fread n stream rs st \<noteq> Inr (n, []))"
proof -
  from assms obtain n0 cs0 cs1 where a: "enkf_node_alloc blk new_data cfg_ptr = Inr (n0, cs0)"
    and r: "run n0 ops = Inr (n, cs1)"
    by (rule lifecycle_ok)
  from a obtain cfg e where e: "enkf_node_alloc_empty blk cfg = Inr e"
    and n0: "n0 = e\<lparr>data := new_data, memory_allocated := True\<rparr>"
    by (rule alloc_ok)
  have i0: "modified n0 \<or> memory_allocated n0" by (simp add: n0)
  have inv: "modified n \<or> memory_allocated n"
    by (rule run_invariant[where P = "\<lambda>m. modified m \<or> memory_allocated m", OF _ r i0])
       (rule apply_op_clean)
  have "enkf_node_fread n stream rs st \<noteq> Inr (n, [])" if "\<not> memory_allocated n"
    using that inv
    by (auto simp: enkf_node_fread_def enkf_node_ensure_memory_def
             split: option.splits)
  with inv show ?thesis by blast
qed

text \<open>
  The theorem at the written GEN_KW node (unmodified, with memory, load skipped) and at
  the freed one (no memory, load not skipped).
\<close>

theorem clean_implies_memory_witness:
  "\<not> modified gen_kw_written \<and> memory_allocated gen_kw_written
   \<and> enkf_node_fread gen_kw_written 0 3 forecast = Inr (gen_kw_written, [])
   \<and> \<not> memory_allocated gen_kw_freed \<and> modified gen_kw_freed
   \<and> enkf_node_fread gen_kw_freed 0 (- 1) undefined_state \<noteq> Inr (gen_kw_freed, [])"
  using clean_implies_memory[OF gen_kw_written_eval(1), of 0 3 forecast]
    clean_implies_memory[OF gen_kw_freed_eval(1), of 0 "- 1" undefined_state]
  by (simp add: gen_kw_written_eval gen_kw_freed_eval enkf_node_fread_def)

end
